theory Spec2Isabelle
  imports Main
begin

section \<open>Deployment: \<open>blockchain/src/deploy/deploy_contracts.ts\<close>\<close>

text \<open>
  Addresses, keys and hosts are strings. An optional parameter (\<open>host?: string\<close>) is an
  \<open>option\<close>; a JavaScript truthiness test on it (\<open>!host\<close>, \<open>vk ? vk : ...\<close>) is a case
  distinction in which \<open>undefined\<close> and the empty string are the falsy values.
\<close>

type_synonym EthAddress = string

datatype deploy_error = Error string

text \<open>
  What \<open>getSigner\<close> builds: the JSON-RPC provider for the host, and on it either a wallet
  for the private key or the provider's signer number 0, wrapped in a \<open>NonceManager\<close>.
\<close>

datatype Signer = Wallet string string | ProviderSigner string nat

datatype NonceManager = NonceManager Signer

text \<open>
  The values a log line interpolates, and the observable effects of the deployment
  procedure in the order the code performs them. \<open>ConsoleLog label v\<close> stands for
  \<open>console.log(`label: ${v}`)\<close>.
\<close>

datatype logged = LStr string | LNum int | LAddr "EthAddress option"

text \<open>A root is kept as the hexadecimal string that the log prints.\<close>

record Roots =
  dataRoot :: string
  nullRoot :: string
  rootsRoot :: string

record TreeInitData =
  dataTreeSize :: int
  roots :: Roots

text \<open>
  The three deployment procedures live in \<open>deploy_mainnet.js\<close>, \<open>deploy_mainnet_fork.js\<close>
  and \<open>deploy_dev.js\<close>; \<open>deploy\<close> only chooses among them, so a call to one of them is
  recorded with the arguments it is given.
\<close>

datatype deploy_call =
    DeployMainnet NonceManager TreeInitData string "EthAddress option" "EthAddress option"
  | DeployMainnetFork string NonceManager TreeInitData string "EthAddress option" "EthAddress option"
  | DeployDev NonceManager TreeInitData string "EthAddress option" "EthAddress option"

datatype network = Mainnet | MainnetFork | Dev

fun wiring :: "deploy_call \<Rightarrow> network" where
  "wiring (DeployMainnet s t v f r) = Mainnet"
| "wiring (DeployMainnetFork h s t v f r) = MainnetFork"
| "wiring (DeployDev s t v f r) = Dev"

datatype effect =
    ConsoleLog string logged
  | NewJsonRpcProvider string
  | GetAddress
  | GetChainId
  | GetInitData int
  | Deploy deploy_call

record Deployed =
  rollup :: EthAddress
  priceFeeds :: "EthAddress list"
  feeDistributor :: EthAddress
  permitHelper :: EthAddress
  faucet :: EthAddress
  bridgeDataProvider :: EthAddress

record EnvVars =
  ROLLUP_CONTRACT_ADDRESS :: EthAddress
  PERMIT_HELPER_CONTRACT_ADDRESS :: EthAddress
  FEE_DISTRIBUTOR_ADDRESS :: EthAddress
  PRICE_FEED_CONTRACT_ADDRESSES :: string
  FAUCET_CONTRACT_ADDRESS :: EthAddress
  BRIDGE_DATA_PROVIDER_CONTRACT_ADDRESS :: EthAddress

text \<open>
  The network and the imported helpers, as the procedure sees them: each awaited call
  either yields its value or rejects, and the wallet constructor may throw.
\<close>

record chain =
  new_wallet :: "string \<Rightarrow> deploy_error option"
  getAddress :: "NonceManager \<Rightarrow> deploy_error + EthAddress"
  getChainId :: "NonceManager \<Rightarrow> deploy_error + int"
  getInitData :: "int \<Rightarrow> TreeInitData"
  run_deploy :: "deploy_call \<Rightarrow> deploy_error + Deployed"

text \<open>
  \<open>new ethers.Wallet(privateKey, provider)\<close> throws on a key it cannot read; \<open>new_wallet\<close>
  says for which keys, and with which error. By then the host has been logged and the
  provider created.
\<close>

definition getSigner ::
  "chain \<Rightarrow> string option \<Rightarrow> string option \<Rightarrow> (deploy_error + NonceManager) \<times> effect list" where
  "getSigner net host privateKey =
     (case host of
        None \<Rightarrow> (Inl (Error ''ETHEREUM_HOST not set.''), [])
      | Some h \<Rightarrow>
          if h = [] then (Inl (Error ''ETHEREUM_HOST not set.''), [])
          else
            (case (case privateKey of
                     None \<Rightarrow> Inr (ProviderSigner h 0)
                   | Some k \<Rightarrow>
                       if k = [] then Inr (ProviderSigner h 0)
                       else (case new_wallet net k of
                               Some err \<Rightarrow> Inl err
                             | None \<Rightarrow> Inr (Wallet k h))) of
               Inl err \<Rightarrow>
                 (Inl err, [ConsoleLog ''Json rpc provider'' (LStr h), NewJsonRpcProvider h])
             | Inr signer \<Rightarrow>
                 (Inr (NonceManager signer),
                  [ConsoleLog ''Json rpc provider'' (LStr h), NewJsonRpcProvider h])))"

text \<open>0xa57ec is 677868 and 0xdef is 3567.\<close>

definition deploy ::
  "string \<Rightarrow> int \<Rightarrow> NonceManager \<Rightarrow> TreeInitData \<Rightarrow> string \<Rightarrow> EthAddress option \<Rightarrow>
   EthAddress option \<Rightarrow> deploy_call" where
  "deploy host chainId signer treeInitData vk faucetOperator rollupProvider =
     (if chainId = 1 then DeployMainnet signer treeInitData vk faucetOperator rollupProvider
      else if chainId = 677868 \<or> chainId = 3567
        then DeployMainnetFork host signer treeInitData vk faucetOperator rollupProvider
      else DeployDev signer treeInitData vk faucetOperator rollupProvider)"

fun join :: "string \<Rightarrow> string list \<Rightarrow> string" where
  "join sep [] = []"
| "join sep [x] = x"
| "join sep (x # y # ys) = x @ sep @ join sep (y # ys)"

definition deployContracts ::
  "chain \<Rightarrow> string option \<Rightarrow> string option \<Rightarrow> string option \<Rightarrow> EthAddress option \<Rightarrow>
   EthAddress option \<Rightarrow> (deploy_error + EnvVars) \<times> effect list" where
  "deployContracts net host vk privateKey faucetOperator rollupProvider =
     (case getSigner net host privateKey of
        (Inl e, t0) \<Rightarrow> (Inl e, t0)
      | (Inr signer, t0) \<Rightarrow>
     (case getAddress net signer of
        Inl e \<Rightarrow> (Inl e, t0 @ [GetAddress])
      | Inr signerAddress \<Rightarrow>
     (let t1 = t0 @ [GetAddress, ConsoleLog ''Signer'' (LStr signerAddress)] in
      case getChainId net signer of
        Inl e \<Rightarrow> (Inl e, t1 @ [GetChainId])
      | Inr chainId \<Rightarrow>
     (let verificationKey =
            (case vk of None \<Rightarrow> ''MockVerificationKey''
             | Some k \<Rightarrow> if k = [] then ''MockVerificationKey'' else k);
          treeInitData = getInitData net chainId;
          call = deploy (case host of Some h \<Rightarrow> h | None \<Rightarrow> []) chainId signer treeInitData verificationKey
                   faucetOperator rollupProvider;
          t2 = t1 @
            [GetChainId,
             ConsoleLog ''Chain id'' (LNum chainId),
             ConsoleLog ''Faucet operator'' (LAddr faucetOperator),
             ConsoleLog ''Rollup provider'' (LAddr rollupProvider),
             ConsoleLog ''Verification key'' (LStr verificationKey),
             GetInitData chainId,
             ConsoleLog ''Initial data size'' (LNum (dataTreeSize treeInitData)),
             ConsoleLog ''Initial data root'' (LStr (dataRoot (roots treeInitData))),
             ConsoleLog ''Initial null root'' (LStr (nullRoot (roots treeInitData))),
             ConsoleLog ''Initial root root'' (LStr (rootsRoot (roots treeInitData))),
             Deploy call]
      in case run_deploy net call of
           Inl e \<Rightarrow> (Inl e, t2)
         | Inr d \<Rightarrow>
             (Inr \<lparr> ROLLUP_CONTRACT_ADDRESS = rollup d,
                    PERMIT_HELPER_CONTRACT_ADDRESS = permitHelper d,
                    FEE_DISTRIBUTOR_ADDRESS = feeDistributor d,
                    PRICE_FEED_CONTRACT_ADDRESSES = join '','' (priceFeeds d),
                    FAUCET_CONTRACT_ADDRESS = faucet d,
                    BRIDGE_DATA_PROVIDER_CONTRACT_ADDRESS = bridgeDataProvider d \<rparr>, t2)))))"

text \<open>A network on which every call is rejected.\<close>

definition offline :: chain where
  "offline =
     \<lparr> new_wallet = (\<lambda>key. None),
       getAddress = (\<lambda>signer. Inl (Error ''offline'')),
       getChainId = (\<lambda>signer. Inl (Error ''offline'')),
       getInitData = (\<lambda>chainId. \<lparr> dataTreeSize = 0,
          roots = \<lparr> dataRoot = [], nullRoot = [], rootsRoot = [] \<rparr> \<rparr>),
       run_deploy = (\<lambda>call. Inl (Error ''offline'')) \<rparr>"

section \<open>Form validation: \<open>zk-money/src/alt-model/defi/defi_form/defi_form_validation.ts\<close>\<close>

text \<open>
  \<open>bigint\<close> is \<open>int\<close>. An \<open>Amount\<close> is read through its asset \<open>id\<close> and its \<open>baseUnits\<close>
  only. The amount factory, the deposit asset and the settlement speed are never
  inspected beyond presence, so their types are parameters. An optional field is an
  \<open>option\<close>: \<open>None\<close> is \<open>undefined\<close>; an object that is present is truthy, and a
  \<open>bigint\<close> is compared with \<open>undefined\<close>, so \<open>0n\<close> counts as present.
\<close>

record Amount =
  id' :: int
  baseUnits :: int

record DefiComposerPayload =
  targetDepositAmount :: Amount
  feeAmount :: Amount

record 'speed DefiFormFields =
  amountStr :: string
  speed :: 'speed

record ('speed, 'factory, 'asset) DefiFormValidationInput =
  fields' :: "'speed DefiFormFields"
  amountFactory :: "'factory option"
  depositAsset :: 'asset
  targetDepositAmount :: "Amount option"
  balanceInTargetAsset :: "int option"
  feeAmount :: "Amount option"
  balanceInFeePayingAsset :: "int option"
  transactionLimit :: "int option"

record ('speed, 'factory, 'asset) DefiFormValidationResult =
  loading :: "bool option"
  unrecognisedTargetAmount :: "bool option"
  insufficientTargetAssetBalance :: "bool option"
  insufficientFeePayingAssetBalance :: "bool option"
  mustAllowForFee :: "bool option"
  beyondTransactionLimit :: "bool option"
  noAmount :: "bool option"
  isValid :: "bool option"
  validPayload :: "DefiComposerPayload option"
  maxOutput :: "int option"
  input :: "('speed, 'factory, 'asset) DefiFormValidationInput"

definition blank ::
  "('speed, 'factory, 'asset) DefiFormValidationInput \<Rightarrow>
   ('speed, 'factory, 'asset) DefiFormValidationResult" where
  "blank i =
     \<lparr> loading = None, unrecognisedTargetAmount = None,
       insufficientTargetAssetBalance = None, insufficientFeePayingAssetBalance = None,
       mustAllowForFee = None, beyondTransactionLimit = None, noAmount = None,
       isValid = None, validPayload = None, maxOutput = None, input = i \<rparr>"

text \<open>
  \<open>min\<close> is imported from \<open>app\<close>, which is not among the sources at hand; it is the
  first parameter of the model.
\<close>

definition validateDefiForm ::
  "(int \<Rightarrow> int \<Rightarrow> int) \<Rightarrow> ('speed, 'factory, 'asset) DefiFormValidationInput \<Rightarrow>
   ('speed, 'factory, 'asset) DefiFormValidationResult" where
  "validateDefiForm app_min i =
     (case (amountFactory i, feeAmount i, balanceInTargetAsset i, balanceInFeePayingAsset i) of
        (Some factory, Some fee, Some balanceTarget, Some balanceFee) \<Rightarrow>
          (case (targetDepositAmount i, transactionLimit i) of
             (Some target, Some limit) \<Rightarrow>
               (let targetAssetIsPayingFee = (id' target = id' fee);
                    feeInTargetAsset = (if targetAssetIsPayingFee then baseUnits fee else 0);
                    requiredInputInTargetAssetCoveringCosts = baseUnits target + feeInTargetAsset;
                    maxOut = app_min (balanceTarget - feeInTargetAsset) limit;
                    beyond = (baseUnits target > limit);
                    none = (baseUnits target \<le> 0);
                    insufficientTarget = (balanceTarget < requiredInputInTargetAssetCoveringCosts);
                    insufficientFee = (balanceFee < baseUnits fee);
                    allowForFee = (insufficientTarget \<and> balanceTarget \<ge> baseUnits target);
                    valid = (\<not> insufficientTarget \<and> \<not> insufficientFee \<and> \<not> beyond \<and> \<not> none);
                    payload =
                      (if valid
                       then Some \<lparr> DefiComposerPayload.targetDepositAmount = target,
                                   DefiComposerPayload.feeAmount = fee \<rparr>
                       else None)
                in \<lparr> loading = None, unrecognisedTargetAmount = None,
                     insufficientTargetAssetBalance = Some insufficientTarget,
                     insufficientFeePayingAssetBalance = Some insufficientFee,
                     mustAllowForFee = Some allowForFee,
                     beyondTransactionLimit = Some beyond,
                     noAmount = Some none,
                     isValid = Some valid,
                     validPayload = payload,
                     maxOutput = Some maxOut,
                     input = i \<rparr>)
           | _ \<Rightarrow> (blank i)\<lparr> unrecognisedTargetAmount := Some True \<rparr>)
      | _ \<Rightarrow> (blank i)\<lparr> loading := Some True \<rparr>)"

section \<open>The service-worker frontend: \<open>ServiceWorkerFrontend\<close>\<close>

subsection \<open>Values and messages\<close>

text \<open>
  Arguments travel as JavaScript values (\<open>any[]\<close>). A dispatch message is the pair
  \<open>{fn, args}\<close>; where the code puts a message or the options object into the argument
  list of another message, \<open>msg_val\<close> and \<open>options_val\<close> give it as a value.
\<close>

datatype jsval =
    JUndefined
  | JNum int
  | JStr string
  | JArr "jsval list"
  | JObj "(string \<times> jsval) list"

record DispatchMsg =
  fn :: string
  args :: "jsval list"

definition msg_val :: "DispatchMsg \<Rightarrow> jsval" where
  "msg_val m = JObj [(''fn'', JStr (fn m)), (''args'', JArr (args m))]"

text \<open>
  Modelled from the spec: \<open>BananaCoreSdkOptions\<close> is declared in
  \<open>banana_core_sdk_options\<close>, which is not among the sources; the spec gives it as a
  configuration object with at least \<open>{numWorkers?: positive integer}\<close>.
\<close>

record BananaCoreSdkOptions =
  numWorkers :: "nat option"

definition options_val :: "BananaCoreSdkOptions \<Rightarrow> jsval" where
  "options_val opts =
     JObj (case numWorkers opts of None \<Rightarrow> [] | Some n \<Rightarrow> [(''numWorkers'', JNum (int n))])"

datatype error = TransportClosed | RemoteError string | TypeError | Rejected string

subsection \<open>The objects \<open>initComponents\<close> builds\<close>

datatype BarretenbergWasm = BarretenbergWasm

text \<open>
  Modelled from the spec: \<open>WorkerPool\<close> comes from \<open>@aztec/barretenberg/wasm\<close>, which is
  not among the sources. The spec (4.4): it is constructed with a compute-kernel factory
  and a pool size N, holds N worker slots and exposes \<open>size()\<close>.
\<close>

record WorkerPool =
  kernel :: BarretenbergWasm
  slots :: nat

text \<open>
  Modelled from the spec: \<open>WorkerPool.size()\<close>, not among the sources, reports the
  number of slots of the pool (4.4).
\<close>

definition size' :: "WorkerPool \<Rightarrow> nat" where
  "size' pool = slots pool"

datatype PooledPedersen = PooledPedersen BarretenbergWasm WorkerPool

datatype PooledPippenger = PooledPippenger WorkerPool

datatype PooledFftFactory = PooledFftFactory WorkerPool

text \<open>
  The four closures \<open>initComponents\<close> creates are named by what they are:
  \<^item> \<open>JobQueueHandler\<close>: \<open>msg => this.transportClient.request({fn: 'jobQueueDispatch', args: [msg]})\<close>;
  \<^item> \<open>CoreSdkHandler\<close>: \<open>msg => this.transportClient.request({fn: 'coreSdkDispatch', args: [msg]})\<close>;
  \<^item> \<open>CloseTransport\<close>: \<open>() => this.transportClient.close()\<close>;
  \<^item> \<open>DispatchToMember\<close>: \<open>({fn, args}) => this[fn](...args)\<close>.
  What each does when called is given below by \<open>run_handler\<close>, \<open>run_sdk_listener\<close> and
  \<open>run_transport_listener\<close>. The \<open>debug\<close> calls only write to the log and are left out.
\<close>

datatype handler = JobQueueHandler | CoreSdkHandler

datatype sdk_listener = CloseTransport

datatype transport_listener = DispatchToMember

datatype JobQueueDispatch = JobQueueDispatch handler

datatype JobQueueWorker =
  JobQueueWorker JobQueueDispatch PooledPedersen PooledPippenger PooledFftFactory

text \<open>
  \<open>SdkEvent\<close> is declared in \<open>core_sdk\<close>, outside the sources at hand; only its member
  \<open>DESTROYED\<close> is used.
\<close>

datatype SdkEvent = DESTROYED | OtherSdkEvent string

record BananaCoreSdk =
  sdk_handler :: handler
  sdk_jobQueueWorker :: JobQueueWorker
  sdk_workerPool :: WorkerPool
  sdk_listeners :: "(SdkEvent \<times> sdk_listener) list"

datatype CoreSdkClientStub = CoreSdkClientStub BananaCoreSdk

record init_result =
  coreSdk :: CoreSdkClientStub


subsection \<open>State\<close>

text \<open>
  Modelled from the spec: \<open>TransportClient\<close> is imported from \<open>../transport\<close>, which is not
  among the sources. Of the channel the spec describes (4.1), the state kept here is
  whether it has been closed and which listeners are subscribed to which inbound event.
\<close>

record TransportClient =
  closed :: bool
  listeners :: "(string \<times> transport_listener) list"

record ServiceWorkerFrontend =
  transportClient :: TransportClient
  jobQueue :: "JobQueueDispatch option"
  coreSdk :: "BananaCoreSdk option"

text \<open>
  The observable actions, in the order they happen: calls into the transport, calls of
  imported constructors and functions, and the invocation of a member of the frontend
  by an event message. \<open>Request msg\<close> is a call of \<open>transportClient.request(msg)\<close>, whatever
  its outcome.
\<close>

datatype action =
    Request DispatchMsg
  | Close
  | GetNumWorkers
  | NewBarretenbergWasm
  | NewWorkerPool nat
  | NewPooledPedersen
  | NewPooledPippenger
  | NewPooledFftFactory
  | NewJobQueueDispatch
  | NewJobQueueWorker
  | NewBananaCoreSdk
  | CoreSdkOn SdkEvent
  | TransportOn string
  | NewCoreSdkClientStub
  | Invoke string "jsval list"

record world =
  self :: ServiceWorkerFrontend
  trace :: "action list"

text \<open>
  What a function that is not among the sources does when it is called on the frontend
  with a list of arguments, up to its return: whether it raises, the actions it performs,
  and the frontend it leaves behind.
\<close>

type_synonym behaviour =
  "jsval list \<Rightarrow> world \<Rightarrow> (error + unit) \<times> action list \<times> ServiceWorkerFrontend"

text \<open>
  What an object inherits from beyond its class (\<open>Object.prototype\<close>) under a name: a
  function, or a value that cannot be called.
\<close>

datatype inherited = InheritedFunction behaviour | InheritedValue


text \<open>
  What surrounds the frontend: the backend's answer to a request (given the actions so
  far; \<open>Inl\<close> is the error message it reports), the platform's default parallelism,
  whether instantiating the kernel or spawning a pool of a given size fails (and with
  which message), what a function made by \<open>createDispatchFn\<close> for a target does
  (\<open>createDispatchFn\<close> is imported from \<open>../transport\<close>, which is not among the sources),
  and what an object inherits from beyond its class, which depends on the platform.
\<close>

record env =
  reply :: "action list \<Rightarrow> DispatchMsg \<Rightarrow> string + jsval"
  getNumWorkers :: nat
  wasm_failure :: "string option"
  pool_failure :: "nat \<Rightarrow> string option"
  createDispatchFn :: "string \<Rightarrow> behaviour"
  inherited :: "string \<Rightarrow> inherited option"

definition log_action :: "action \<Rightarrow> world \<Rightarrow> world" where
  "log_action a w = w\<lparr> trace := trace w @ [a] \<rparr>"

text \<open>
  \<open>new ServiceWorkerFrontend(transportClient)\<close>: the constructor stores the transport;
  \<open>jobQueue\<close> and \<open>coreSdk\<close> stay unset until \<open>initComponents\<close> assigns them.
\<close>

definition ServiceWorkerFrontend_new :: "TransportClient \<Rightarrow> ServiceWorkerFrontend" where
  "ServiceWorkerFrontend_new client =
     \<lparr> transportClient = client, jobQueue = None, ServiceWorkerFrontend.coreSdk = None \<rparr>"

subsection \<open>The transport\<close>

text \<open>
  Modelled from the spec: \<open>TransportClient.request\<close> is not among the sources. The spec
  (4.1, 8): \<open>request(msg)\<close> sends \<open>msg\<close> to the peer and resolves with the peer's reply or
  rejects with the peer's reported error; once the transport is closed no further request
  can be issued, the call rejects with the transport-closed condition.
\<close>

definition request :: "env \<Rightarrow> DispatchMsg \<Rightarrow> world \<Rightarrow> (error + jsval) \<times> world" where
  "request e msg w =
     (if closed (transportClient (self w)) then (Inl TransportClosed, log_action (Request msg) w)
      else case reply e (trace w) msg of
             Inl err \<Rightarrow> (Inl (RemoteError err), log_action (Request msg) w)
           | Inr v \<Rightarrow> (Inr v, log_action (Request msg) w))"

text \<open>
  Modelled from the spec: \<open>TransportClient.close\<close> is not among the sources. The spec
  (4.1): \<open>close()\<close> releases the channel.
\<close>

definition close :: "world \<Rightarrow> world" where
  "close w =
     log_action Close
       (w\<lparr> self := (self w)\<lparr> transportClient := (transportClient (self w))\<lparr> closed := True \<rparr> \<rparr> \<rparr>)"

text \<open>
  Modelled from the spec: \<open>TransportClient.on\<close> is not among the sources. The spec (4.1):
  \<open>on(eventName, handler)\<close> subscribes the handler to the inbound events of that name.
\<close>

definition transport_on :: "string \<Rightarrow> transport_listener \<Rightarrow> world \<Rightarrow> world" where
  "transport_on name l w =
     log_action (TransportOn name)
       (w\<lparr> self := (self w)\<lparr> transportClient :=
            (transportClient (self w))\<lparr> listeners := listeners (transportClient (self w)) @ [(name, l)] \<rparr> \<rparr> \<rparr>)"

subsection \<open>The closures\<close>

fun run_handler :: "env \<Rightarrow> handler \<Rightarrow> DispatchMsg \<Rightarrow> world \<Rightarrow> (error + jsval) \<times> world" where
  "run_handler e JobQueueHandler msg w =
     request e \<lparr> fn = ''jobQueueDispatch'', args = [msg_val msg] \<rparr> w"
| "run_handler e CoreSdkHandler msg w =
     request e \<lparr> fn = ''coreSdkDispatch'', args = [msg_val msg] \<rparr> w"

fun run_sdk_listener :: "sdk_listener \<Rightarrow> world \<Rightarrow> world" where
  "run_sdk_listener CloseTransport w = close w"









subsection \<open>Proxies and event emitters\<close>


text \<open>
  Modelled from the spec: the methods of \<open>BananaCoreSdk\<close> (\<open>./banana_core_sdk\<close>) are not
  among the sources. The spec (2, 4.2): the same dispatcher forwards the session's method
  calls through the handler the object was constructed with.
\<close>

definition BananaCoreSdk_call ::
  "env \<Rightarrow> BananaCoreSdk \<Rightarrow> string \<Rightarrow> jsval list \<Rightarrow> world \<Rightarrow> (error + jsval) \<times> world" where
  "BananaCoreSdk_call e sdk name as w = run_handler e (sdk_handler sdk) \<lparr> fn = name, args = as \<rparr> w"

text \<open>
  Modelled from the spec: \<open>BananaCoreSdk.on\<close> is not among the sources. The spec (3): an
  event subscription is a mapping from a name to its listeners, local to the endpoint.
\<close>

definition BananaCoreSdk_on :: "SdkEvent \<Rightarrow> sdk_listener \<Rightarrow> BananaCoreSdk \<Rightarrow> BananaCoreSdk" where
  "BananaCoreSdk_on ev l sdk = sdk\<lparr> sdk_listeners := sdk_listeners sdk @ [(ev, l)] \<rparr>"

text \<open>
  Modelled from the spec: \<open>BananaCoreSdk.emit\<close> is not among the sources. The spec (2, 3):
  an event emitted on the session is passed to the listeners subscribed under its name;
  they are called in the order of their subscription.
\<close>

definition BananaCoreSdk_emit :: "BananaCoreSdk \<Rightarrow> SdkEvent \<Rightarrow> world \<Rightarrow> world" where
  "BananaCoreSdk_emit sdk ev w =
     fold run_sdk_listener (map snd (filter (\<lambda>p. fst p = ev) (sdk_listeners sdk))) w"



subsection \<open>\<open>initComponents\<close>\<close>

text \<open>
  The destructuring default \<open>{ numWorkers = getNumWorkers() }\<close> calls \<open>getNumWorkers\<close>
  only when the field is \<open>undefined\<close>.
\<close>

definition resolve_numWorkers :: "env \<Rightarrow> BananaCoreSdkOptions \<Rightarrow> world \<Rightarrow> nat \<times> world" where
  "resolve_numWorkers e opts w =
     (case numWorkers opts of
        Some n \<Rightarrow> (n, w)
      | None \<Rightarrow> (getNumWorkers e, log_action GetNumWorkers w))"

definition set_jobQueue :: "JobQueueDispatch \<Rightarrow> world \<Rightarrow> world" where
  "set_jobQueue q w = w\<lparr> self := (self w)\<lparr> jobQueue := Some q \<rparr> \<rparr>"

definition set_coreSdk :: "BananaCoreSdk \<Rightarrow> world \<Rightarrow> world" where
  "set_coreSdk sdk w = w\<lparr> self := (self w)\<lparr> ServiceWorkerFrontend.coreSdk := Some sdk \<rparr> \<rparr>"

text \<open>
  \<open>await BarretenbergWasm.new()\<close>: the kernel comes up or the call rejects.
\<close>

definition BarretenbergWasm_new :: "env \<Rightarrow> world \<Rightarrow> (error + BarretenbergWasm) \<times> world" where
  "BarretenbergWasm_new e w =
     (case wasm_failure e of
        Some err \<Rightarrow> (Inl (Rejected err), log_action NewBarretenbergWasm w)
      | None \<Rightarrow> (Inr BarretenbergWasm, log_action NewBarretenbergWasm w))"

text \<open>
  Modelled from the spec: \<open>WorkerPool.new\<close> is not among the sources. The spec (4.4): the
  pool is constructed with a compute-kernel factory and a pool size N and owns N
  workers; as an awaited call it may also reject.
\<close>

definition WorkerPool_new ::
  "env \<Rightarrow> BarretenbergWasm \<Rightarrow> nat \<Rightarrow> world \<Rightarrow> (error + WorkerPool) \<times> world" where
  "WorkerPool_new e barretenberg poolSize w =
     (case pool_failure e poolSize of
        Some err \<Rightarrow> (Inl (Rejected err), log_action (NewWorkerPool poolSize) w)
      | None \<Rightarrow>
          (Inr \<lparr> kernel = barretenberg, slots = poolSize \<rparr>,
           log_action (NewWorkerPool poolSize) w))"

definition initComponents ::
  "env \<Rightarrow> BananaCoreSdkOptions \<Rightarrow> world \<Rightarrow> (error + init_result) \<times> world" where
  "initComponents e opts w0 =
     (case request e \<lparr> fn = ''initComponents'', args = [options_val opts] \<rparr> w0 of
        (Inl err, w1) \<Rightarrow> (Inl err, w1)
      | (Inr response, w1) \<Rightarrow>
     (case resolve_numWorkers e opts w1 of (n, w2) \<Rightarrow>
     (case BarretenbergWasm_new e w2 of
        (Inl err, w3) \<Rightarrow> (Inl err, w3)
      | (Inr barretenberg, w3) \<Rightarrow>
     (case WorkerPool_new e barretenberg n w3 of
        (Inl err, w4) \<Rightarrow> (Inl err, w4)
      | (Inr workerPool, w4) \<Rightarrow>
          let pedersen = PooledPedersen barretenberg workerPool;
              w5 = log_action NewPooledPedersen w4;
              pippenger = PooledPippenger workerPool;
              w6 = log_action NewPooledPippenger w5;
              fftFactory = PooledFftFactory workerPool;
              w7 = log_action NewPooledFftFactory w6;
              queue = JobQueueDispatch JobQueueHandler;
              w8 = set_jobQueue queue (log_action NewJobQueueDispatch w7);
              jobQueueWorker = JobQueueWorker queue pedersen pippenger fftFactory;
              w9 = log_action NewJobQueueWorker w8;
              sdk = \<lparr> sdk_handler = CoreSdkHandler, sdk_jobQueueWorker = jobQueueWorker,
                      sdk_workerPool = workerPool, sdk_listeners = [] \<rparr>;
              w10 = log_action NewBananaCoreSdk w9;
              sdk' = BananaCoreSdk_on DESTROYED CloseTransport sdk;
              w11 = set_coreSdk sdk' (log_action (CoreSdkOn DESTROYED) w10);
              w12 = transport_on ''event_msg'' DispatchToMember w11;
              w13 = log_action NewCoreSdkClientStub w12
          in (Inr \<lparr> init_result.coreSdk = CoreSdkClientStub sdk' \<rparr>, w13)))))"

text \<open>
  The session that \<open>initComponents\<close> returns, the worker pool behind it, and the sizes
  of the worker pools a sequence of actions creates.
\<close>

fun session_of :: "init_result \<Rightarrow> BananaCoreSdk" where
  "session_of r = (case init_result.coreSdk r of CoreSdkClientStub sdk \<Rightarrow> sdk)"

definition pool_of :: "init_result \<Rightarrow> WorkerPool" where
  "pool_of r = sdk_workerPool (session_of r)"

fun pools_created :: "action list \<Rightarrow> nat list" where
  "pools_created [] = []"
| "pools_created (NewWorkerPool n # as) = n # pools_created as"
| "pools_created (a # as) = pools_created as"

subsection \<open>A backend that answers, one that fails, and a frontend just constructed\<close>

text \<open>
  A function that does nothing and returns, and a prototype with the standard functions
  of \<open>Object.prototype\<close> that take any arguments.
\<close>

definition returns :: behaviour where
  "returns as w = (Inr (), [], self w)"

definition object_prototype :: "string \<Rightarrow> inherited option" where
  "object_prototype name =
     (if name \<in> set [''hasOwnProperty'', ''isPrototypeOf'', ''propertyIsEnumerable'',
                      ''toLocaleString'', ''toString'', ''valueOf'']
      then Some (InheritedFunction returns)
      else if name = ''__proto__'' then Some InheritedValue
      else None)"

definition answering :: env where
  "answering =
     \<lparr> reply = (\<lambda>t m. Inr JUndefined), getNumWorkers = 8, wasm_failure = None,
       pool_failure = (\<lambda>n. None), createDispatchFn = (\<lambda>target. returns),
       inherited = object_prototype \<rparr>"

definition failing :: env where
  "failing = answering\<lparr> reply := (\<lambda>t m. Inl ''backend failed'') \<rparr>"

definition refusing_jobs :: env where
  "refusing_jobs =
     answering\<lparr> reply := (\<lambda>t m. if fn m = ''jobQueueDispatch'' then Inl ''no job'' else Inr JUndefined) \<rparr>"

definition fresh :: world where
  "fresh = \<lparr> self = ServiceWorkerFrontend_new \<lparr> closed = False, listeners = [] \<rparr>, trace = [] \<rparr>"

section \<open>Properties of the deployment procedure\<close>

text \<open>
  C8: the deployment procedure picks the contract wiring by chain id alone: chain id 1
  gives the mainnet deployment, chain ids 0xa57ec (677868) and 0xdef (3567) the
  mainnet-fork deployment, every other chain id the dev deployment, whatever the host,
  signer, tree data, key and addresses are.
\<close>

theorem deploy_selects_by_chain_id:
  "wiring (deploy host chainId signer treeInitData vk faucetOperator rollupProvider) =
     (if chainId = 1 then Mainnet
      else if chainId = 677868 \<or> chainId = 3567 then MainnetFork
      else Dev)
   \<and> wiring (deploy host chainId signer treeInitData vk faucetOperator rollupProvider) =
       wiring (deploy host' chainId signer' treeInitData' vk' faucetOperator' rollupProvider')"
  by (simp add: deploy_def)

text \<open>
  C10: when the host argument of \<open>deployContracts\<close> is absent or empty, the call fails
  with the error \<open>ETHEREUM_HOST not set.\<close>, raised by \<open>getSigner\<close>, and nothing has been
  done before: no provider is created, no network call is made, nothing is logged.
\<close>

theorem deployContracts_host_not_set:
  assumes "host = None \<or> host = Some []"
  shows "deployContracts net host vk privateKey faucetOperator rollupProvider =
           (Inl (Error ''ETHEREUM_HOST not set.''), [])
         \<and> getSigner net host privateKey = (Inl (Error ''ETHEREUM_HOST not set.''), [])"
  using assms by (auto simp add: deployContracts_def getSigner_def)

theorem deployContracts_host_not_set_witness:
  "deployContracts offline None (Some ''vk'') (Some ''key'') None None =
     (Inl (Error ''ETHEREUM_HOST not set.''), [])
   \<and> deployContracts offline (Some []) None None (Some ''0xfa'') None =
     (Inl (Error ''ETHEREUM_HOST not set.''), [])"
  using deployContracts_host_not_set [of None offline "Some ''vk''" "Some ''key''" None None]
    deployContracts_host_not_set [of "Some []" offline None None "Some ''0xfa''" None]
  by simp

section \<open>Properties of the form validation\<close>

text \<open>
  C9: on an input in which the amount factory, the fee amount, both balances, the
  transaction limit and the target deposit amount are all present, \<open>validateDefiForm\<close>
  reports \<open>isValid\<close> true exactly when none of \<open>insufficientTargetAssetBalance\<close>,
  \<open>insufficientFeePayingAssetBalance\<close>, \<open>beyondTransactionLimit\<close> and \<open>noAmount\<close> holds;
  \<open>validPayload\<close> is defined exactly when \<open>isValid\<close> is true, and then holds the target
  deposit amount and the fee amount of the input. Each of the four flags is the
  comparison the code computes.
\<close>

theorem validateDefiForm_valid_iff:
  assumes "amountFactory i = Some factory"
    and "feeAmount i = Some fee"
    and "balanceInTargetAsset i = Some balanceTarget"
    and "balanceInFeePayingAsset i = Some balanceFee"
    and "transactionLimit i = Some limit"
    and "targetDepositAmount i = Some target"
  shows "(isValid (validateDefiForm app_min i) = Some True) =
           (insufficientTargetAssetBalance (validateDefiForm app_min i) = Some False \<and>
            insufficientFeePayingAssetBalance (validateDefiForm app_min i) = Some False \<and>
            beyondTransactionLimit (validateDefiForm app_min i) = Some False \<and>
            noAmount (validateDefiForm app_min i) = Some False)
   \<and> (isValid (validateDefiForm app_min i) = Some True \<or>
       isValid (validateDefiForm app_min i) = Some False)
   \<and> (validPayload (validateDefiForm app_min i) \<noteq> None) =
       (isValid (validateDefiForm app_min i) = Some True)
   \<and> (validPayload (validateDefiForm app_min i) = None \<or>
       validPayload (validateDefiForm app_min i) =
         Some \<lparr> DefiComposerPayload.targetDepositAmount = target,
                DefiComposerPayload.feeAmount = fee \<rparr>)
   \<and> insufficientTargetAssetBalance (validateDefiForm app_min i) =
         Some (balanceTarget <
               baseUnits target + (if id' target = id' fee then baseUnits fee else 0))
   \<and> insufficientFeePayingAssetBalance (validateDefiForm app_min i) =
         Some (balanceFee < baseUnits fee)
   \<and> beyondTransactionLimit (validateDefiForm app_min i) = Some (limit < baseUnits target)
   \<and> noAmount (validateDefiForm app_min i) = Some (baseUnits target \<le> 0)"
  using assms by (simp add: validateDefiForm_def Let_def)

theorem validateDefiForm_valid_iff_witness:
  "isValid (validateDefiForm min
      \<lparr> fields' = \<lparr> amountStr = ''10'', speed = () \<rparr>, amountFactory = Some (),
        depositAsset = (), targetDepositAmount = Some \<lparr> id' = 0, baseUnits = 10 \<rparr>,
        balanceInTargetAsset = Some 15, feeAmount = Some \<lparr> id' = 0, baseUnits = 2 \<rparr>,
        balanceInFeePayingAsset = Some 15, transactionLimit = Some 100 \<rparr>) = Some True
   \<and> validPayload (validateDefiForm min
      \<lparr> fields' = \<lparr> amountStr = ''10'', speed = () \<rparr>, amountFactory = Some (),
        depositAsset = (), targetDepositAmount = Some \<lparr> id' = 0, baseUnits = 10 \<rparr>,
        balanceInTargetAsset = Some 15, feeAmount = Some \<lparr> id' = 0, baseUnits = 2 \<rparr>,
        balanceInFeePayingAsset = Some 15, transactionLimit = Some 100 \<rparr>) =
      Some \<lparr> DefiComposerPayload.targetDepositAmount = \<lparr> id' = 0, baseUnits = 10 \<rparr>,
             DefiComposerPayload.feeAmount = \<lparr> id' = 0, baseUnits = 2 \<rparr> \<rparr>"
  using validateDefiForm_valid_iff
    [of "\<lparr> fields' = \<lparr> amountStr = ''10'', speed = () \<rparr>, amountFactory = Some (),
          depositAsset = (), targetDepositAmount = Some \<lparr> id' = 0, baseUnits = 10 \<rparr>,
          balanceInTargetAsset = Some 15, feeAmount = Some \<lparr> id' = 0, baseUnits = 2 \<rparr>,
          balanceInFeePayingAsset = Some 15, transactionLimit = Some 100 \<rparr>"
        "()" "\<lparr> id' = 0, baseUnits = 2 \<rparr>" 15 15 100 "\<lparr> id' = 0, baseUnits = 10 \<rparr>" min]
  by (simp add: validateDefiForm_def Let_def)

section \<open>Properties of the frontend\<close>

lemma pools_created_append: "pools_created (xs @ ys) = pools_created xs @ pools_created ys"
  by (induction xs rule: pools_created.induct) simp_all

lemmas frontend_defs = initComponents_def request_def resolve_numWorkers_def log_action_def
  set_jobQueue_def set_coreSdk_def transport_on_def BananaCoreSdk_on_def WorkerPool_new_def
  BarretenbergWasm_new_def


lemmas example_defs = answering_def failing_def refusing_jobs_def fresh_def
  ServiceWorkerFrontend_new_def options_val_def returns_def object_prototype_def


text \<open>On a frontend just constructed, with a backend that answers, \<open>initComponents\<close> resolves.\<close>

lemma fresh_resolves:
  "initComponents answering opts fresh =
     (Inr (projr (fst (initComponents answering opts fresh))),
      snd (initComponents answering opts fresh))"
proof -
  have "fst (initComponents answering opts fresh) =
          Inr (projr (fst (initComponents answering opts fresh)))"
    by (simp add: frontend_defs example_defs Let_def split: option.splits)
  then show ?thesis
    by (metis prod.collapse)
qed


text \<open>
  C1: whenever \<open>initComponents\<close> resolves, the one worker pool it has created, which is
  the pool behind the session it returns, has \<open>options.numWorkers\<close> slots when that field
  is present and \<open>getNumWorkers()\<close> slots when it is absent.
\<close>

theorem initComponents_pool_size:
  assumes "initComponents e opts w = (Inr r, w')"
  shows "size' (pool_of r) = (case numWorkers opts of Some n \<Rightarrow> n | None \<Rightarrow> getNumWorkers e)
       \<and> pools_created (trace w') = pools_created (trace w) @
            [case numWorkers opts of Some n \<Rightarrow> n | None \<Rightarrow> getNumWorkers e]"
  using assms
  by (auto simp add: frontend_defs size'_def pool_of_def pools_created_append Let_def
      split: if_splits sum.splits option.splits)

theorem initComponents_pool_size_witness:
  "size' (pool_of (projr (fst (initComponents answering \<lparr> numWorkers = Some 4 \<rparr> fresh)))) = 4
   \<and> size' (pool_of (projr (fst (initComponents answering \<lparr> numWorkers = None \<rparr> fresh)))) =
       getNumWorkers answering
   \<and> pools_created (trace (snd (initComponents answering \<lparr> numWorkers = Some 4 \<rparr> fresh))) = [4]"
  using initComponents_pool_size [OF fresh_resolves [of "\<lparr> numWorkers = Some 4 \<rparr>"]]
    initComponents_pool_size [OF fresh_resolves [of "\<lparr> numWorkers = None \<rparr>"]]
  by (simp add: fresh_def)

text \<open>
  C7: \<open>initComponents\<close> first sends the initialization request to the backend, and only
  a successful response is followed by the construction of the worker pool, the pooled
  wrappers and the job-queue wiring: the request is the first action; when it is
  rejected, \<open>initComponents\<close> rejects with the same error, nothing else has happened
  and the frontend is unchanged; when \<open>initComponents\<close> resolves, the request was
  answered and the constructions follow it in the order of the code.
\<close>

theorem initComponents_requests_first:
  assumes "initComponents e opts w = (res, w')"
  shows "\<exists>rest. trace w' =
           trace w @ Request \<lparr> fn = ''initComponents'', args = [options_val opts] \<rparr> # rest
     \<and> (\<forall>err. fst (request e \<lparr> fn = ''initComponents'', args = [options_val opts] \<rparr> w) = Inl err
            \<longrightarrow> res = Inl err \<and> rest = [] \<and> self w' = self w)
     \<and> (\<forall>r. res = Inr r \<longrightarrow>
           (\<exists>v. fst (request e \<lparr> fn = ''initComponents'', args = [options_val opts] \<rparr> w) = Inr v)
           \<and> rest = (case numWorkers opts of None \<Rightarrow> [GetNumWorkers] | Some n \<Rightarrow> []) @
              [NewBarretenbergWasm,
               NewWorkerPool (case numWorkers opts of Some n \<Rightarrow> n | None \<Rightarrow> getNumWorkers e),
               NewPooledPedersen, NewPooledPippenger, NewPooledFftFactory, NewJobQueueDispatch,
               NewJobQueueWorker, NewBananaCoreSdk, CoreSdkOn DESTROYED, TransportOn ''event_msg'',
               NewCoreSdkClientStub])"
  using assms
  by (auto simp add: frontend_defs Let_def split: if_splits sum.splits option.splits)

theorem initComponents_requests_first_witness:
  "initComponents failing \<lparr> numWorkers = Some 4 \<rparr> fresh =
     (Inl (RemoteError ''backend failed''),
      log_action (Request \<lparr> fn = ''initComponents'',
                            args = [options_val \<lparr> numWorkers = Some 4 \<rparr>] \<rparr>) fresh)
   \<and> take 3 (trace (snd (initComponents answering \<lparr> numWorkers = Some 4 \<rparr> fresh))) =
       [Request \<lparr> fn = ''initComponents'', args = [options_val \<lparr> numWorkers = Some 4 \<rparr>] \<rparr>,
        NewBarretenbergWasm, NewWorkerPool 4]"
proof -
  have rejected: "fst (request failing
      \<lparr> fn = ''initComponents'', args = [options_val \<lparr> numWorkers = Some 4 \<rparr>] \<rparr> fresh) =
      Inl (RemoteError ''backend failed'')"
    by (simp add: request_def example_defs)
  obtain rest where
    "trace (snd (initComponents failing \<lparr> numWorkers = Some 4 \<rparr> fresh)) =
       trace fresh @ Request \<lparr> fn = ''initComponents'',
                               args = [options_val \<lparr> numWorkers = Some 4 \<rparr>] \<rparr> # rest"
    "fst (initComponents failing \<lparr> numWorkers = Some 4 \<rparr> fresh) = Inl (RemoteError ''backend failed'')"
    "rest = []"
    "self (snd (initComponents failing \<lparr> numWorkers = Some 4 \<rparr> fresh)) = self fresh"
    using initComponents_requests_first
      [of failing "\<lparr> numWorkers = Some 4 \<rparr>" fresh
          "fst (initComponents failing \<lparr> numWorkers = Some 4 \<rparr> fresh)"
          "snd (initComponents failing \<lparr> numWorkers = Some 4 \<rparr> fresh)"] rejected
    by auto
  then have first: "initComponents failing \<lparr> numWorkers = Some 4 \<rparr> fresh =
     (Inl (RemoteError ''backend failed''),
      log_action (Request \<lparr> fn = ''initComponents'',
                            args = [options_val \<lparr> numWorkers = Some 4 \<rparr>] \<rparr>) fresh)"
    by (simp add: prod_eq_iff log_action_def)
  obtain rest' where
    "trace (snd (initComponents answering \<lparr> numWorkers = Some 4 \<rparr> fresh)) =
       trace fresh @ Request \<lparr> fn = ''initComponents'',
                               args = [options_val \<lparr> numWorkers = Some 4 \<rparr>] \<rparr> # rest'"
    "rest' = [NewBarretenbergWasm, NewWorkerPool 4,
               NewPooledPedersen, NewPooledPippenger, NewPooledFftFactory, NewJobQueueDispatch,
               NewJobQueueWorker, NewBananaCoreSdk, CoreSdkOn DESTROYED, TransportOn ''event_msg'',
               NewCoreSdkClientStub]"
    using initComponents_requests_first [OF fresh_resolves [of "\<lparr> numWorkers = Some 4 \<rparr>"]]
    by auto
  then have second: "take 3 (trace (snd (initComponents answering \<lparr> numWorkers = Some 4 \<rparr> fresh))) =
       [Request \<lparr> fn = ''initComponents'', args = [options_val \<lparr> numWorkers = Some 4 \<rparr>] \<rparr>,
        NewBarretenbergWasm, NewWorkerPool 4]"
    by (simp add: fresh_def)
  from first second show ?thesis by simp
qed

text \<open>
  C4: the listener that \<open>initComponents\<close> registers for the session's \<open>DESTROYED\<close>
  event calls \<open>transportClient.close()\<close>: it is the only listener under that name, so
  emitting \<open>DESTROYED\<close> on the session, in whatever state, is closing the transport.
\<close>

theorem destroyed_closes_transport:
  assumes "initComponents e opts w = (Inr r, w')"
  shows "ServiceWorkerFrontend.coreSdk (self w') = Some (session_of r)
    \<and> filter (\<lambda>p. fst p = DESTROYED) (sdk_listeners (session_of r)) = [(DESTROYED, CloseTransport)]
    \<and> BananaCoreSdk_emit (session_of r) DESTROYED w'' = close w''
    \<and> closed (transportClient (self (close w'')))
    \<and> trace (close w'') = trace w'' @ [Close]"
  using assms
  by (auto simp add: frontend_defs BananaCoreSdk_emit_def close_def Let_def
      split: if_splits sum.splits option.splits)

theorem destroyed_closes_transport_witness:
  "closed (transportClient (self
     (BananaCoreSdk_emit
        (session_of (projr (fst (initComponents answering \<lparr> numWorkers = None \<rparr> fresh))))
        DESTROYED
        (snd (initComponents answering \<lparr> numWorkers = None \<rparr> fresh)))))
   \<and> \<not> closed (transportClient (self (snd (initComponents answering \<lparr> numWorkers = None \<rparr> fresh))))"
proof -
  have "\<not> closed (transportClient (self (snd (initComponents answering \<lparr> numWorkers = None \<rparr> fresh))))"
    by (simp add: frontend_defs example_defs Let_def)
  then show ?thesis
    using destroyed_closes_transport [OF fresh_resolves [of "\<lparr> numWorkers = None \<rparr>"]]
    by simp
qed












end
